theory Spec2Isabelle
  imports Complex_Main
begin

section \<open>Values, cells and the Python runtime\<close>

text \<open>
  A Python \<open>str\<close> is modelled as an Isabelle \<open>string\<close> whose characters are the code
  points U+0000 .. U+00FF. A cell of a pandas table is missing (\<open>NaN\<close> or \<open>None\<close>),
  a text, or a number (the engine itself writes the rounded confidence as a number).
  Floats are modelled by the rational they denote.
\<close>

datatype cell = NaN | Str string | Num rat

datatype py_error = ValueError string | KeyError string | TypeError

text \<open>
  What the program takes from the Python runtime and from \<open>difflib\<close>, and what is not
  part of the repository: \<open>str()\<close> of a float, \<open>get_close_matches(word,
  possibilities, n=1, cutoff)\<close>, which raises on a cut-off outside \<open>[0, 1]\<close> and on a
  possibility that is no text, and \<open>SequenceMatcher(None, a, b).ratio()\<close>.
\<close>

record ext =
  float_str :: "rat \<Rightarrow> string"
  get_close_matches :: "string \<Rightarrow> cell list \<Rightarrow> rat \<Rightarrow> py_error + string list"
  ratio :: "string \<Rightarrow> string \<Rightarrow> rat"

definition isna :: "cell \<Rightarrow> bool" where
  "isna v = (v = NaN)"

fun py_str :: "ext \<Rightarrow> cell \<Rightarrow> string" where
  "py_str E NaN = ''nan''"
| "py_str E (Str s) = s"
| "py_str E (Num q) = float_str E q"

section \<open>The normalizer \<open>clean_name\<close>\<close>

text \<open>\<open>str.isspace\<close> and the class \<open>\s\<close> of \<open>re\<close> on the code points below 256.\<close>

definition isspace :: "char \<Rightarrow> bool" where
  "isspace c = (let n = (of_char c :: nat) in
     (9 \<le> n \<and> n \<le> 13) \<or> (28 \<le> n \<and> n \<le> 32) \<or> n = 133 \<or> n = 160)"

text \<open>\<open>str.isalnum\<close> on the code points below 256: the letters and the digits.\<close>

definition isalnum :: "char \<Rightarrow> bool" where
  "isalnum c = (let n = (of_char c :: nat) in
     (48 \<le> n \<and> n \<le> 57) \<or> (65 \<le> n \<and> n \<le> 90) \<or> (97 \<le> n \<and> n \<le> 122) \<or>
     n = 170 \<or> (178 \<le> n \<and> n \<le> 179) \<or> n = 181 \<or> (185 \<le> n \<and> n \<le> 186) \<or>
     (188 \<le> n \<and> n \<le> 190) \<or> (192 \<le> n \<and> n \<le> 214) \<or> (216 \<le> n \<and> n \<le> 246) \<or>
     (248 \<le> n \<and> n \<le> 255))"

text \<open>The class \<open>\w\<close> of \<open>re\<close>: alphanumeric, or the underscore.\<close>

definition isword :: "char \<Rightarrow> bool" where
  "isword c = (isalnum c \<or> c = CHR ''_'')"

definition isupper :: "char \<Rightarrow> bool" where
  "isupper c = (let n = (of_char c :: nat) in
     (65 \<le> n \<and> n \<le> 90) \<or> (192 \<le> n \<and> n \<le> 214) \<or> (216 \<le> n \<and> n \<le> 222))"

text \<open>\<open>str.lower\<close> on one code point below 256.\<close>

definition lower_char :: "char \<Rightarrow> char" where
  "lower_char c = (if isupper c then char_of ((of_char c :: nat) + 32) else c)"

definition lower :: "string \<Rightarrow> string" where
  "lower s = map lower_char s"

text \<open>\<open>str.strip()\<close>: leading and trailing whitespace removed.\<close>

definition strip :: "string \<Rightarrow> string" where
  "strip s = rev (dropWhile isspace (rev (dropWhile isspace s)))"

text \<open>
  \<open>re.sub(r'\s+', ' ', s)\<close>: every maximal run of whitespace becomes one space. The flag
  says that the character before was whitespace, so the run has its space already.
\<close>

fun sub_spaces :: "bool \<Rightarrow> string \<Rightarrow> string" where
  "sub_spaces in_run [] = []"
| "sub_spaces in_run (c # cs) =
     (if isspace c then (if in_run then sub_spaces True cs else CHR '' '' # sub_spaces True cs)
      else c # sub_spaces False cs)"

text \<open>\<open>re.sub(r'[^\w\s\-]', '', s)\<close>: keep word characters, whitespace and the hyphen.\<close>

definition keep_char :: "char \<Rightarrow> bool" where
  "keep_char c = (isword c \<or> isspace c \<or> c = CHR ''-'')"

definition sub_special :: "string \<Rightarrow> string" where
  "sub_special s = filter keep_char s"

definition clean_name :: "ext \<Rightarrow> cell \<Rightarrow> string" where
  "clean_name E name =
     (if isna name then ''''
      else sub_special (lower (sub_spaces False (strip (py_str E name)))))"

section \<open>Tables\<close>

text \<open>
  A pandas \<open>DataFrame\<close> is its list of column names and its rows in index order; the index
  is the default one, \<open>0 .. n-1\<close>, as the loader produces it. A row gives a cell for every
  name, and only the cells at the names in \<open>columns\<close> belong to the table: every read
  checks the name against \<open>columns\<close> and raises \<open>KeyError\<close> as pandas does.
\<close>

type_synonym row = "string \<Rightarrow> cell"

record dataframe =
  columns :: "string list"
  rows :: "row list"

text \<open>\<open>df[c]\<close>, the column as a list of cells.\<close>

definition get_column :: "dataframe \<Rightarrow> string \<Rightarrow> py_error + cell list" where
  "get_column df c =
     (if c \<in> set (columns df) then Inr (map (\<lambda>r. r c) (rows df)) else Inl (KeyError c))"

text \<open>\<open>df[c] = v\<close> for a scalar \<open>v\<close>: a new column is appended, an old one overwritten.\<close>

definition set_column_value :: "dataframe \<Rightarrow> string \<Rightarrow> cell \<Rightarrow> dataframe" where
  "set_column_value df c v =
     df\<lparr>columns := (if c \<in> set (columns df) then columns df else columns df @ [c]),
        rows := map (\<lambda>r. r(c := v)) (rows df)\<rparr>"

text \<open>
  \<open>df[c] = series\<close>: the series is aligned on the index, so row \<open>i\<close> takes its \<open>i\<close>-th
  value, and \<open>NaN\<close> where the series is shorter.
\<close>

definition set_column_series :: "dataframe \<Rightarrow> string \<Rightarrow> cell list \<Rightarrow> dataframe" where
  "set_column_series df c vs =
     df\<lparr>columns := (if c \<in> set (columns df) then columns df else columns df @ [c]),
        rows := map (\<lambda>(i, r). r(c := (if i < length vs then vs ! i else NaN)))
                  (enumerate 0 (rows df))\<rparr>"

text \<open>\<open>df.drop(columns=[c for c in cs if c in df.columns])\<close>.\<close>

definition drop_columns :: "dataframe \<Rightarrow> string list \<Rightarrow> dataframe" where
  "drop_columns df cs = df\<lparr>columns := filter (\<lambda>c. c \<notin> set cs) (columns df)\<rparr>"

text \<open>\<open>row[c]\<close> and \<open>row.get(c, default)\<close> on a row of a table with the columns \<open>cols\<close>.\<close>

definition getitem :: "string list \<Rightarrow> row \<Rightarrow> string \<Rightarrow> py_error + cell" where
  "getitem cols r c = (if c \<in> set cols then Inr (r c) else Inl (KeyError c))"

definition get_default :: "string list \<Rightarrow> row \<Rightarrow> string \<Rightarrow> cell \<Rightarrow> cell" where
  "get_default cols r c d = (if c \<in> set cols then r c else d)"

text \<open>\<open>df[df[c] == k]\<close>: the rows whose cell at \<open>c\<close> is the text \<open>k\<close>, in table order.\<close>

definition select_rows :: "dataframe \<Rightarrow> string \<Rightarrow> string \<Rightarrow> py_error + row list" where
  "select_rows df c k =
     (if c \<in> set (columns df) then Inr (filter (\<lambda>r. r c = Str k) (rows df))
      else Inl (KeyError c))"

section \<open>The application state\<close>

text \<open>
  The fields of \<open>ExcelComparisonTool\<close> that the engine reads and writes. The log and the
  widgets are left out. \<open>secondary_work\<close> is \<open>None\<close> while the attribute is not set.
\<close>

record app =
  master_df :: "dataframe option"
  secondary_df :: "dataframe option"
  secondary_work :: "dataframe option"
  selected_reference_primary :: string
  selected_target_columns :: "string list"
  selected_replace_columns :: "string list"
  selected_data_source :: string
  preserve_structure :: bool
  enable_multivalue :: bool
  target_delimiter :: string
  fuzzy_matching :: bool
  similarity_threshold :: rat
  undo_col_data :: "cell list option"
  undo_col_name :: "string option"

section \<open>Matching one value\<close>

record match_result =
  mtype :: string
  matched_name :: cell
  confidence :: rat
  data_value :: cell

record match_info = match_result +
  column :: string

text \<open>
  The exact step of \<open>find_match_for_value\<close> (and, line for line, of the single value path of
  \<open>process_data\<close>): the rows with an equal key, and the first of them when there is one.
\<close>

definition exact_lookup ::
  "dataframe \<Rightarrow> string \<Rightarrow> string \<Rightarrow> string \<Rightarrow> py_error + match_result option" where
  "exact_lookup master_work reference_primary data_source target_clean_name =
     (case select_rows master_work ''clean_reference'' target_clean_name of
        Inl e \<Rightarrow> Inl e
      | Inr [] \<Rightarrow> Inr None
      | Inr (r # _) \<Rightarrow>
          (case getitem (columns master_work) r reference_primary of
             Inl e \<Rightarrow> Inl e
           | Inr nm \<Rightarrow> Inr (Some \<lparr>mtype = ''EXACT'', matched_name = nm, confidence = 1,
               data_value = get_default (columns master_work) r data_source (Str '''')\<rparr>)))"

text \<open>
  The fuzzy step: the non-missing keys of the reference, the closest one at or above the
  cut-off as \<open>difflib\<close> finds it, the first row with that key, and the similarity ratio as
  confidence.
\<close>

definition fuzzy_lookup ::
  "ext \<Rightarrow> rat \<Rightarrow> dataframe \<Rightarrow> string \<Rightarrow> string \<Rightarrow> string \<Rightarrow> py_error + match_result option" where
  "fuzzy_lookup E cutoff master_work reference_primary data_source target_clean_name =
     (case get_column master_work ''clean_reference'' of
        Inl e \<Rightarrow> Inl e
      | Inr vs \<Rightarrow>
          (let master_names = filter (\<lambda>v. \<not> isna v) vs in
           if master_names = [] then Inr None
           else (case get_close_matches E target_clean_name master_names cutoff of
                   Inl e \<Rightarrow> Inl e
                 | Inr [] \<Rightarrow> Inr None
                 | Inr (matched_clean_name # _) \<Rightarrow>
                     (case select_rows master_work ''clean_reference'' matched_clean_name of
                        Inl e \<Rightarrow> Inl e
                      | Inr [] \<Rightarrow> Inr None
                      | Inr (r # _) \<Rightarrow>
                          (case getitem (columns master_work) r reference_primary of
                             Inl e \<Rightarrow> Inl e
                           | Inr nm \<Rightarrow> Inr (Some \<lparr>mtype = ''FUZZY'', matched_name = nm,
                               confidence = ratio E target_clean_name matched_clean_name,
                               data_value =
                                 get_default (columns master_work) r data_source (Str '''')\<rparr>))))))"

definition find_match_for_value ::
  "ext \<Rightarrow> app \<Rightarrow> cell \<Rightarrow> dataframe \<Rightarrow> string \<Rightarrow> string \<Rightarrow> bool \<Rightarrow> bool
     \<Rightarrow> py_error + match_result option" where
  "find_match_for_value E self target_value master_work reference_primary data_source
       exact_only fuzzy_only =
     (let target_clean_name = clean_name E target_value in
      if target_clean_name = '''' then Inr None
      else (case (if \<not> fuzzy_only
                  then exact_lookup master_work reference_primary data_source target_clean_name
                  else Inr None) of
              Inl e \<Rightarrow> Inl e
            | Inr (Some m) \<Rightarrow> Inr (Some m)
            | Inr None \<Rightarrow>
                if \<not> exact_only \<and> fuzzy_matching self
                then fuzzy_lookup E (similarity_threshold self) master_work reference_primary
                       data_source target_clean_name
                else Inr None))"

section \<open>Matching one target column of one row\<close>

definition with_column :: "string \<Rightarrow> match_result \<Rightarrow> match_info" where
  "with_column target_col m =
     \<lparr>mtype = mtype m, matched_name = matched_name m, confidence = confidence m,
      data_value = data_value m, column = target_col\<rparr>"

text \<open>The single value path of \<open>process_data\<close>.\<close>

definition single_value_match ::
  "ext \<Rightarrow> app \<Rightarrow> dataframe \<Rightarrow> string \<Rightarrow> string \<Rightarrow> string \<Rightarrow> cell
     \<Rightarrow> py_error + match_info option" where
  "single_value_match E self master_work reference_primary data_source target_col target_value =
     (let target_clean_name = clean_name E target_value in
      if target_clean_name = '''' then Inr None
      else (case exact_lookup master_work reference_primary data_source target_clean_name of
              Inl e \<Rightarrow> Inl e
            | Inr (Some m) \<Rightarrow> Inr (Some (with_column target_col m))
            | Inr None \<Rightarrow>
                if fuzzy_matching self
                then (case fuzzy_lookup E (similarity_threshold self) master_work
                             reference_primary data_source target_clean_name of
                        Inl e \<Rightarrow> Inl e
                      | Inr mo \<Rightarrow> Inr (map_option (with_column target_col) mo))
                else Inr None))"

text \<open>The delimiters that the multi-value path looks for, in this order.\<close>

definition delimiters_to_check :: "char list" where
  "delimiters_to_check = [CHR '','', CHR '';'', CHR ''|'']"

definition detect_delimiter :: "string \<Rightarrow> char option" where
  "detect_delimiter target_str = find (\<lambda>delim. delim \<in> set target_str) delimiters_to_check"

text \<open>\<open>s.split(d)\<close> for a delimiter of one character: empty parts are kept.\<close>

fun split_on :: "char \<Rightarrow> string \<Rightarrow> string list" where
  "split_on d [] = [[]]"
| "split_on d (c # cs) =
     (if c = d then [] # split_on d cs
      else (case split_on d cs of [] \<Rightarrow> [[c]] | p # ps \<Rightarrow> (c # p) # ps))"

definition split_values :: "char \<Rightarrow> string \<Rightarrow> string list" where
  "split_values d target_str = filter (\<lambda>v. v \<noteq> '''') (map strip (split_on d target_str))"

text \<open>\<open>d.join(xs)\<close>, which raises \<open>TypeError\<close> on an item that is not a \<open>str\<close>.\<close>

fun py_join :: "string \<Rightarrow> cell list \<Rightarrow> py_error + string" where
  "py_join d [] = Inr ''''"
| "py_join d (Str s # vs) =
     (case py_join d vs of Inl e \<Rightarrow> Inl e | Inr t \<Rightarrow> Inr (if vs = [] then s else s @ d @ t))"
| "py_join d (v # vs) = Inl TypeError"

text \<open>A loop that stops at the first exception.\<close>

fun sequence :: "(py_error + 'a) list \<Rightarrow> py_error + 'a list" where
  "sequence [] = Inr []"
| "sequence (Inl e # xs) = Inl e"
| "sequence (Inr x # xs) = (case sequence xs of Inl e \<Rightarrow> Inl e | Inr ys \<Rightarrow> Inr (x # ys))"

text \<open>\<open>str(n)\<close> for a natural number.\<close>

fun str_nat :: "nat \<Rightarrow> string" where
  "str_nat n = (if n < 10 then [char_of (48 + n)]
                else str_nat (n div 10) @ [char_of (48 + n mod 10)])"

declare str_nat.simps [simp del]

text \<open>
  The multi-value path of \<open>process_data\<close>. It gives \<open>None\<close> where the source falls through
  to the single value path: no delimiter in the value, or fewer than two parts.
\<close>

definition multi_value_match ::
  "ext \<Rightarrow> app \<Rightarrow> dataframe \<Rightarrow> string \<Rightarrow> string \<Rightarrow> string \<Rightarrow> cell
     \<Rightarrow> py_error + match_info option" where
  "multi_value_match E self master_work reference_primary data_source target_col target_value =
     (let target_str = py_str E target_value in
      case detect_delimiter target_str of
        None \<Rightarrow> Inr None
      | Some actual_delimiter \<Rightarrow>
          (let target_values = split_values actual_delimiter target_str in
           if length target_values > 1 then
             (case sequence (map (\<lambda>target_val.
                       find_match_for_value E self (Str target_val) master_work
                         reference_primary data_source False False) target_values) of
                Inl e \<Rightarrow> Inl e
              | Inr results \<Rightarrow>
                  (let matched_results = map (\<lambda>match_result. case match_result of
                           Some m \<Rightarrow> data_value m | None \<Rightarrow> Str ''match unfound'') results;
                       match_types = map (\<lambda>match_result. case match_result of
                           Some m \<Rightarrow> mtype m | None \<Rightarrow> ''NONE'') results
                   in if matched_results \<noteq> [] then
                        (case py_join [actual_delimiter] matched_results of
                           Inl e \<Rightarrow> Inl e
                         | Inr combined_data_value \<Rightarrow>
                             (let has_exact = (''EXACT'' \<in> set match_types);
                                  has_fuzzy = (''FUZZY'' \<in> set match_types);
                                  match_count = length (filter (\<lambda>r. r \<noteq> Str ''match unfound'')
                                                  matched_results);
                                  match_type = (if has_exact then ''EXACT''
                                                else if has_fuzzy then ''FUZZY'' else ''REVIEW'')
                              in Inr (Some
                                   \<lparr>mtype = match_type,
                                    matched_name = Str (''Multi-value: '' @ str_nat match_count
                                       @ ''/'' @ str_nat (length target_values) @ '' matched''),
                                    confidence = (if has_exact then 1
                                                  else if has_fuzzy then 4 / 5 else 0),
                                    data_value = Str combined_data_value,
                                    column = target_col\<rparr>)))
                      else Inr None))
           else Inr None))"

text \<open>The body of the loop over the target columns: the entry of \<open>matches_found\<close>, if any.\<close>

definition match_column ::
  "ext \<Rightarrow> app \<Rightarrow> dataframe \<Rightarrow> string \<Rightarrow> string \<Rightarrow> string list \<Rightarrow> row \<Rightarrow> string
     \<Rightarrow> py_error + match_info option" where
  "match_column E self master_work reference_primary data_source cols row target_col =
     (case getitem cols row target_col of
        Inl e \<Rightarrow> Inl e
      | Inr target_value \<Rightarrow>
          if isna target_value \<or> strip (py_str E target_value) = '''' then Inr None
          else (case (if enable_multivalue self
                      then multi_value_match E self master_work reference_primary data_source
                             target_col target_value
                      else Inr None) of
                  Inl e \<Rightarrow> Inl e
                | Inr (Some m) \<Rightarrow> Inr (Some m)
                | Inr None \<Rightarrow> single_value_match E self master_work reference_primary
                                data_source target_col target_value))"

text \<open>
  \<open>matches_found\<close>, a dictionary from the position of the target column to its match,
  as the list of its items in insertion order.
\<close>

fun collect_matches ::
  "ext \<Rightarrow> app \<Rightarrow> dataframe \<Rightarrow> string \<Rightarrow> string \<Rightarrow> string list \<Rightarrow> row \<Rightarrow> nat \<Rightarrow> string list
     \<Rightarrow> py_error + (nat \<times> match_info) list" where
  "collect_matches E self master_work reference_primary data_source cols row i [] = Inr []"
| "collect_matches E self master_work reference_primary data_source cols row i
       (target_col # target_cols) =
     (case match_column E self master_work reference_primary data_source cols row target_col of
        Inl e \<Rightarrow> Inl e
      | Inr found \<Rightarrow>
          (case collect_matches E self master_work reference_primary data_source cols row
                  (Suc i) target_cols of
             Inl e \<Rightarrow> Inl e
           | Inr rest \<Rightarrow>
               Inr (case found of None \<Rightarrow> rest | Some m \<Rightarrow> (i, m) # rest)))"

section \<open>Reconciling one row\<close>

text \<open>The writes into the replace columns, one for each item of \<open>matches_found\<close>.\<close>

definition write_replace_columns ::
  "string list \<Rightarrow> string list \<Rightarrow> (nat \<times> match_info) list \<Rightarrow> row \<Rightarrow> row" where
  "write_replace_columns cols replace_columns matches_found r =
     fold (\<lambda>(target_idx, match_info) r.
             if target_idx < length replace_columns
             then (let replace_col = replace_columns ! target_idx
                   in if replace_col \<in> set cols then r(replace_col := data_value match_info)
                      else r)
             else r)
          matches_found r"

text \<open>
  \<open>max(matches_found.values(), key=lambda x: x['confidence'])\<close>: the running maximum is
  replaced only by a strictly greater confidence.
\<close>

fun max_confidence :: "match_info \<Rightarrow> match_info list \<Rightarrow> match_info" where
  "max_confidence best [] = best"
| "max_confidence best (m # ms) =
     max_confidence (if confidence best < confidence m then m else best) ms"

text \<open>\<open>round(x, 3)\<close>: to the nearest multiple of 1/1000, a tie to the even one.\<close>

definition round_half_even :: "rat \<Rightarrow> int" where
  "round_half_even x =
     (let f = \<lfloor>x\<rfloor>; d = x - of_int f
      in if d < 1 / 2 then f else if 1 / 2 < d then f + 1 else if even f then f else f + 1)"

definition py_round3 :: "rat \<Rightarrow> rat" where
  "py_round3 x = of_int (round_half_even (x * 1000)) / 1000"

record statistics =
  exact_matches :: nat
  fuzzy_matches :: nat
  no_matches :: nat

text \<open>
  The body of the loop over the rows. \<open>cols\<close> are the columns of the working table, which
  hold the four tracking columns by then.
\<close>

definition process_row ::
  "ext \<Rightarrow> app \<Rightarrow> dataframe \<Rightarrow> string \<Rightarrow> string \<Rightarrow> string list \<Rightarrow> row \<Rightarrow> statistics
     \<Rightarrow> py_error + row \<times> statistics" where
  "process_row E self master_work reference_primary data_source cols row st =
     (case collect_matches E self master_work reference_primary data_source cols row 0
             (selected_target_columns self) of
        Inl e \<Rightarrow> Inl e
      | Inr [] \<Rightarrow>
          Inr (row(''Match_Type'' := Str ''REVIEW''), st\<lparr>no_matches := no_matches st + 1\<rparr>)
      | Inr (item # items) \<Rightarrow>
          (let row1 = write_replace_columns cols (selected_replace_columns self)
                        (item # items) row;
               best_match = max_confidence (snd item) (map snd items);
               row2 = row1(''Match_Type'' := Str (mtype best_match),
                           ''Matched_Reference_Name'' := matched_name best_match,
                           ''Confidence'' := Num (py_round3 (confidence best_match)),
                           ''Matched_Column'' := Str (column best_match))
           in Inr (row2,
                   if mtype best_match = ''EXACT''
                   then st\<lparr>exact_matches := exact_matches st + 1\<rparr>
                   else st\<lparr>fuzzy_matches := fuzzy_matches st + 1\<rparr>)))"

section \<open>The run over the target table\<close>

text \<open>
  The loop over the rows, in table order. An exception leaves the rows before it updated
  and the others as they were; it comes with the counters reached so far.
\<close>

fun process_rows ::
  "ext \<Rightarrow> app \<Rightarrow> dataframe \<Rightarrow> string \<Rightarrow> string \<Rightarrow> string list \<Rightarrow> row list \<Rightarrow> statistics
     \<Rightarrow> py_error option \<times> row list \<times> statistics" where
  "process_rows E self master_work reference_primary data_source cols [] st = (None, [], st)"
| "process_rows E self master_work reference_primary data_source cols (row # rest) st =
     (case process_row E self master_work reference_primary data_source cols row st of
        Inl e \<Rightarrow> (Some e, row # rest, st)
      | Inr (row', st') \<Rightarrow>
          (case process_rows E self master_work reference_primary data_source cols rest st' of
             (err, rest', st'') \<Rightarrow> (err, row' # rest', st'')))"

text \<open>\<open>master_work['clean_reference'] = master_work[reference_primary].apply(clean_name)\<close>.\<close>

definition add_clean_reference :: "ext \<Rightarrow> string \<Rightarrow> dataframe \<Rightarrow> py_error + dataframe" where
  "add_clean_reference E reference_primary master_work =
     (case get_column master_work reference_primary of
        Inl e \<Rightarrow> Inl e
      | Inr vs \<Rightarrow> Inr (set_column_series master_work ''clean_reference''
                       (map (\<lambda>v. Str (clean_name E v)) vs)))"

definition clean_target :: "nat \<Rightarrow> string" where
  "clean_target i = ''clean_target_'' @ str_nat i"

text \<open>
  The loop that adds the columns \<open>clean_target_i\<close>; the table is changed in place, so an
  exception leaves the columns added before it.
\<close>

fun add_clean_targets ::
  "ext \<Rightarrow> nat \<Rightarrow> string list \<Rightarrow> dataframe \<Rightarrow> py_error option \<times> dataframe" where
  "add_clean_targets E i [] df = (None, df)"
| "add_clean_targets E i (target_col # target_cols) df =
     (case get_column df target_col of
        Inl e \<Rightarrow> (Some e, df)
      | Inr vs \<Rightarrow> add_clean_targets E (Suc i) target_cols
                   (set_column_series df (clean_target i) (map (\<lambda>v. Str (clean_name E v)) vs)))"

definition add_tracking_columns :: "dataframe \<Rightarrow> dataframe" where
  "add_tracking_columns df =
     set_column_value (set_column_value (set_column_value (set_column_value df
       ''Match_Type'' (Str '''')) ''Matched_Reference_Name'' (Str '''')) ''Confidence'' (Str ''''))
       ''Matched_Column'' (Str '''')"

record run_report =
  total_records :: nat
  exact :: nat
  fuzzy :: nat
  review :: nat
  percentages :: "(rat \<times> rat \<times> rat) option"

text \<open>What the end of \<open>process_data\<close> writes to the log.\<close>

definition log_statistics :: "dataframe \<Rightarrow> statistics \<Rightarrow> run_report" where
  "log_statistics work st =
     (let total = length (rows work)
      in \<lparr>total_records = total, exact = exact_matches st, fuzzy = fuzzy_matches st,
          review = no_matches st,
          percentages =
            (if total > 0
             then Some (of_nat (exact_matches st) / of_nat total * 100,
                        of_nat (fuzzy_matches st) / of_nat total * 100,
                        of_nat (no_matches st) / of_nat total * 100)
             else None)\<rparr>)"

text \<open>
  \<open>process_data\<close> from the working copies on. The result is the exception that the
  \<open>except\<close> clause reports, or the statistics, and the state that is left. The preview and
  the update of the widgets after the statistics only write to the log and the window.
\<close>

definition run_matching ::
  "ext \<Rightarrow> app \<Rightarrow> dataframe \<Rightarrow> dataframe \<Rightarrow> (py_error + run_report) \<times> app" where
  "run_matching E self master secondary =
     (let reference_primary = selected_reference_primary self;
          data_source = selected_data_source self
      in case add_clean_reference E reference_primary master of
           Inl e \<Rightarrow> (Inl e, self\<lparr>secondary_work := Some secondary\<rparr>)
         | Inr master_work \<Rightarrow>
             (case add_clean_targets E 0 (selected_target_columns self) secondary of
                (Some e, work) \<Rightarrow> (Inl e, self\<lparr>secondary_work := Some work\<rparr>)
              | (None, work) \<Rightarrow>
                  if preserve_structure self then
                    (let work1 = add_tracking_columns work
                     in case process_rows E self master_work reference_primary data_source
                               (columns work1) (rows work1)
                               \<lparr>exact_matches = 0, fuzzy_matches = 0, no_matches = 0\<rparr> of
                          (Some e, rows', st) \<Rightarrow>
                            (Inl e, self\<lparr>secondary_work := Some (work1\<lparr>rows := rows'\<rparr>)\<rparr>)
                        | (None, rows', st) \<Rightarrow>
                            (let work2 = drop_columns (work1\<lparr>rows := rows'\<rparr>)
                                   (''clean_reference'' #
                                    map clean_target [0 ..< length (selected_target_columns self)])
                             in (Inr (log_statistics work2 st),
                                 self\<lparr>secondary_work := Some work2\<rparr>)))
                  else (Inr (log_statistics work
                               \<lparr>exact_matches = 0, fuzzy_matches = 0, no_matches = 0\<rparr>),
                        self\<lparr>secondary_work := Some work\<rparr>)))"

definition process_data :: "ext \<Rightarrow> app \<Rightarrow> (py_error + run_report) \<times> app" where
  "process_data E self =
     (case (master_df self, secondary_df self) of
        (Some master, Some secondary) \<Rightarrow>
          if selected_reference_primary self = ''''
          then (Inl (ValueError ''Please select a reference primary match column''), self)
          else if selected_target_columns self = []
          then (Inl (ValueError ''Please select at least one target column for comparison''),
                self)
          else if preserve_structure self \<and> selected_replace_columns self = []
          then (Inl (ValueError
                  ''Please select columns to replace when preserve structure is enabled''), self)
          else if selected_data_source self = ''''
          then (Inl (ValueError ''Please select a data source column''), self)
          else run_matching E self master secondary
      | _ \<Rightarrow> (Inl (ValueError ''Please load both files first''), self))"

section \<open>Replacing a whole column, and undoing it\<close>

datatype notice = NoData | NoColumnSelected | ColumnReplaced | NothingToUndo | UndoComplete

text \<open>
  \<open>col\<close> and \<open>val\<close> are what the two widgets hold when the button is pressed. The result
  is the message box shown, or the exception that leaves the handler.
\<close>

definition replace_entire_column :: "string \<Rightarrow> string \<Rightarrow> app \<Rightarrow> (py_error + notice) \<times> app" where
  "replace_entire_column col val self =
     (case secondary_work self of
        None \<Rightarrow> (Inr NoData, self)
      | Some work \<Rightarrow>
          if col = '''' then (Inr NoColumnSelected, self)
          else (case get_column work col of
                  Inl e \<Rightarrow> (Inl e, self)
                | Inr old \<Rightarrow>
                    (Inr ColumnReplaced,
                     self\<lparr>undo_col_data := Some old, undo_col_name := Some col,
                          secondary_work := Some (set_column_value work col (Str val))\<rparr>)))"

definition undo_replace_column :: "app \<Rightarrow> notice \<times> app" where
  "undo_replace_column self =
     (case (secondary_work self, undo_col_data self, undo_col_name self) of
        (Some work, Some data, Some name) \<Rightarrow>
          (UndoComplete,
           self\<lparr>secondary_work := Some (set_column_series work name data),
                undo_col_data := None, undo_col_name := None\<rparr>)
      | _ \<Rightarrow> (NothingToUndo, self))"

section \<open>Example tables\<close>

text \<open>
  A runtime whose fuzzy search finds nothing, the reference table of the scenarios
  (names and identifiers), and a target table of one row whose name cell is \<open>v\<close>.
\<close>

definition ex_runtime :: ext where
  "ex_runtime = \<lparr>float_str = (\<lambda>q. ''''), get_close_matches = (\<lambda>w ps c. Inr []),
     ratio = (\<lambda>a b. 0)\<rparr>"

definition ex_reference :: dataframe where
  "ex_reference = \<lparr>columns = [''Name'', ''ID''],
     rows = [(\<lambda>c. NaN)(''Name'' := Str ''John Smith'', ''ID'' := Str ''001''),
             (\<lambda>c. NaN)(''Name'' := Str ''Jane Doe'', ''ID'' := Str ''002'')]\<rparr>"

definition ex_target :: "string \<Rightarrow> dataframe" where
  "ex_target v = \<lparr>columns = [''FullName'', ''EmployeeID''],
     rows = [(\<lambda>c. NaN)(''FullName'' := Str v)]\<rparr>"

definition ex_app :: "bool \<Rightarrow> string \<Rightarrow> app" where
  "ex_app multi v =
     \<lparr>master_df = Some ex_reference, secondary_df = Some (ex_target v), secondary_work = None,
      selected_reference_primary = ''Name'', selected_target_columns = [''FullName''],
      selected_replace_columns = [''EmployeeID''], selected_data_source = ''ID'',
      preserve_structure = True, enable_multivalue = multi, target_delimiter = '','',
      fuzzy_matching = True, similarity_threshold = 4 / 5,
      undo_col_data = None, undo_col_name = None\<rparr>"

text \<open>The state after a run that left the target table as the working table.\<close>

definition ex_processed :: app where
  "ex_processed =
     ex_app False ''john smith''\<lparr>secondary_work := Some (ex_target ''john smith'')\<rparr>"

text \<open>A reference table in which two rows have the same key after cleaning.\<close>

definition ex_duplicates :: dataframe where
  "ex_duplicates = \<lparr>columns = [''Name'', ''ID''],
     rows = [(\<lambda>c. NaN)(''Name'' := Str ''Jane Doe'', ''ID'' := Str ''002''),
             (\<lambda>c. NaN)(''Name'' := Str ''John Smith'', ''ID'' := Str ''001''),
             (\<lambda>c. NaN)(''Name'' := Str ''john  SMITH.'', ''ID'' := Str ''009'')]\<rparr>"

definition ex_duplicates_work :: dataframe where
  "ex_duplicates_work = set_column_series ex_duplicates ''clean_reference''
     (map (\<lambda>v. Str (clean_name ex_runtime v)) (map (\<lambda>r. r ''Name'') (rows ex_duplicates)))"

text \<open>The working copy of the reference table of the scenarios.\<close>

definition ex_master_work :: dataframe where
  "ex_master_work = set_column_series ex_reference ''clean_reference''
     (map (\<lambda>v. Str (clean_name ex_runtime v)) (map (\<lambda>r. r ''Name'') (rows ex_reference)))"

section \<open>The delimiter detection as the specification words it\<close>

text \<open>
  The specification names four default candidates: comma, semicolon, pipe and space, of
  which the first that occurs in the raw value is picked.
\<close>

definition spec_delimiter_candidates :: "char list" where
  "spec_delimiter_candidates = [CHR '','', CHR '';'', CHR ''|'', CHR '' '']"

definition spec_detect_delimiter :: "string \<Rightarrow> char option" where
  "spec_detect_delimiter raw = find (\<lambda>d. d \<in> set raw) spec_delimiter_candidates"

text \<open>A target table with two name columns, and the selections that match both.\<close>

definition ex_target2 :: dataframe where
  "ex_target2 = \<lparr>columns = [''FullName'', ''Alias'', ''EmployeeID'', ''AliasID''],
     rows = [(\<lambda>c. NaN)(''FullName'' := Str ''Jane Doe'', ''Alias'' := Str ''JOHN SMITH'')]\<rparr>"

definition ex_app2 :: app where
  "ex_app2 = ex_app False ''''
     \<lparr>secondary_df := Some ex_target2, selected_target_columns := [''FullName'', ''Alias''],
      selected_replace_columns := [''EmployeeID'', ''AliasID'']\<rparr>"

definition ex_matches2 :: "(nat \<times> match_info) list" where
  "ex_matches2 =
     [(0, \<lparr>mtype = ''EXACT'', matched_name = Str ''Jane Doe'', confidence = 1,
            data_value = Str ''002'', column = ''FullName''\<rparr>),
      (1, \<lparr>mtype = ''EXACT'', matched_name = Str ''John Smith'', confidence = 1,
            data_value = Str ''001'', column = ''Alias''\<rparr>)]"

section \<open>Properties of the normalizer\<close>

lemmas char_class_defs =
  isspace_def isalnum_def isword_def isupper_def lower_char_def keep_char_def

lemmas clean_name_defs =
  clean_name_def isna_def strip_def lower_def sub_special_def char_class_defs

text \<open>
  C1. Idempotence asks that \<open>clean_name (clean_name x) = clean_name x\<close> for every \<open>x\<close>.
  The special characters are removed after the whitespace has been collapsed, so the
  spaces on both sides of a removed character stay: \<open>a ! b\<close> is cleaned to \<open>a\<close>, two
  spaces, \<open>b\<close>, and cleaning that again gives \<open>a b\<close> with one space.
\<close>

theorem clean_name_not_idempotent:
  "clean_name E (Str ''a ! b'') = ''a  b'' \<and>
   clean_name E (Str (clean_name E (Str ''a ! b''))) = ''a b'' \<and>
   clean_name E (Str (clean_name E (Str ''a ! b''))) \<noteq> clean_name E (Str ''a ! b'')"
  by (simp add: clean_name_defs)

section \<open>Properties of the configuration check\<close>

text \<open>
  C9. When a required selection is missing (no reference primary column, no target column,
  no replace column while the structure is preserved, or no data source column),
  \<open>process_data\<close> raises a \<open>ValueError\<close> and the state is the one it started from: no
  working table is made and no row is touched.
\<close>

theorem process_data_configuration_error:
  assumes "selected_reference_primary self = '''' \<or> selected_target_columns self = [] \<or>
           (preserve_structure self \<and> selected_replace_columns self = []) \<or>
           selected_data_source self = ''''"
  shows "\<exists>msg. process_data E self = (Inl (ValueError msg), self)"
  using assms by (auto simp: process_data_def split: option.splits)

theorem process_data_configuration_error_witness:
  "selected_data_source (ex_app False ''john smith''\<lparr>selected_data_source := ''''\<rparr>) = '''' \<and>
   (\<exists>msg. process_data ex_runtime (ex_app False ''john smith''\<lparr>selected_data_source := ''''\<rparr>)
      = (Inl (ValueError msg), ex_app False ''john smith''\<lparr>selected_data_source := ''''\<rparr>))"
  using process_data_configuration_error
    [of "ex_app False ''john smith''\<lparr>selected_data_source := ''''\<rparr>" ex_runtime]
  by simp

section \<open>Properties of replace and undo\<close>

lemma restore_rows:
  "map (\<lambda>(i, r). r(c := (if i < length xs then map (\<lambda>r. r c) xs ! i else NaN)))
       (enumerate 0 (map (\<lambda>r. r(c := v)) xs)) = xs"
  by (rule nth_equalityI) (auto simp: nth_enumerate_eq)

lemma restore_table:
  "c \<in> set (columns w) \<Longrightarrow>
     set_column_series (set_column_value w c v) c (map (\<lambda>r. r c) (rows w)) = w"
  by (simp add: set_column_series_def set_column_value_def restore_rows)

lemma replace_entire_column_replaced:
  assumes "replace_entire_column col val self = (Inr ColumnReplaced, self1)"
  obtains work where "secondary_work self = Some work" "col \<in> set (columns work)"
    "self1 = self\<lparr>undo_col_data := Some (map (\<lambda>r. r col) (rows work)), undo_col_name := Some col,
                   secondary_work := Some (set_column_value work col (Str val))\<rparr>"
  using assms
  by (auto simp: replace_entire_column_def get_column_def split: option.splits if_splits)

lemma undo_without_snapshot:
  "secondary_work s = None \<or> undo_col_data s = None \<or> undo_col_name s = None \<Longrightarrow>
     undo_replace_column s = (NothingToUndo, s)"
  by (auto simp: undo_replace_column_def split: option.splits)

text \<open>
  C8. After a replace of column \<open>col\<close> by \<open>val\<close> that went through, the undo gives back the
  state before the replace, so the working table and with it column \<open>col\<close> hold exactly the
  values from before; the snapshot is gone, so a second undo finds nothing to undo. An
  undo without a snapshot reports that there is nothing to undo and changes nothing.
\<close>

theorem replace_then_undo_restores:
  "(replace_entire_column col val self = (Inr ColumnReplaced, self1) \<longrightarrow>
      undo_replace_column self1 =
        (UndoComplete, self\<lparr>undo_col_data := None, undo_col_name := None\<rparr>) \<and>
      secondary_work (snd (undo_replace_column self1)) = secondary_work self \<and>
      undo_replace_column (snd (undo_replace_column self1)) =
        (NothingToUndo, snd (undo_replace_column self1)))
   \<and> ((secondary_work s = None \<or> undo_col_data s = None \<or> undo_col_name s = None) \<longrightarrow>
      undo_replace_column s = (NothingToUndo, s))"
proof (intro conjI impI)
  assume "replace_entire_column col val self = (Inr ColumnReplaced, self1)"
  then obtain work where w: "secondary_work self = Some work" "col \<in> set (columns work)"
    and s1: "self1 = self\<lparr>undo_col_data := Some (map (\<lambda>r. r col) (rows work)),
                 undo_col_name := Some col,
                 secondary_work := Some (set_column_value work col (Str val))\<rparr>"
    by (rule replace_entire_column_replaced)
  have "self\<lparr>secondary_work := Some work\<rparr> = self"
    using w(1) by simp
  then show u: "undo_replace_column self1 =
      (UndoComplete, self\<lparr>undo_col_data := None, undo_col_name := None\<rparr>)"
    by (simp add: s1 undo_replace_column_def restore_table [OF w(2)])
  show "secondary_work (snd (undo_replace_column self1)) = secondary_work self"
    by (simp add: u)
  show "undo_replace_column (snd (undo_replace_column self1)) =
        (NothingToUndo, snd (undo_replace_column self1))"
    by (rule undo_without_snapshot) (simp add: u)
next
  assume "secondary_work s = None \<or> undo_col_data s = None \<or> undo_col_name s = None"
  then show "undo_replace_column s = (NothingToUndo, s)"
    by (rule undo_without_snapshot)
qed

theorem replace_then_undo_restores_witness:
  "fst (replace_entire_column ''FullName'' ''Reviewed'' ex_processed) = Inr ColumnReplaced \<and>
   undo_replace_column (snd (replace_entire_column ''FullName'' ''Reviewed'' ex_processed)) =
     (UndoComplete, ex_processed) \<and>
   undo_col_data ex_processed = None \<and>
   undo_replace_column ex_processed = (NothingToUndo, ex_processed)"
proof -
  let ?R = "replace_entire_column ''FullName'' ''Reviewed'' ex_processed"
  have f: "fst ?R = Inr ColumnReplaced"
    by (simp add: replace_entire_column_def ex_processed_def ex_app_def ex_target_def
        get_column_def)
  have r: "?R = (Inr ColumnReplaced, snd ?R)"
    using f by (metis prod.collapse)
  have n: "undo_col_data ex_processed = None"
    by (simp add: ex_processed_def ex_app_def)
  have e: "ex_processed\<lparr>undo_col_data := None, undo_col_name := None\<rparr> = ex_processed"
    by (simp add: ex_processed_def ex_app_def)
  note c = replace_then_undo_restores
    [of "''FullName''" "''Reviewed''" ex_processed "snd ?R" ex_processed]
  from c r have "undo_replace_column (snd ?R) =
      (UndoComplete, ex_processed\<lparr>undo_col_data := None, undo_col_name := None\<rparr>)"
    by blast
  then have u: "undo_replace_column (snd ?R) = (UndoComplete, ex_processed)"
    by (simp only: e)
  from c n have "undo_replace_column ex_processed = (NothingToUndo, ex_processed)"
    by blast
  with f u n show ?thesis by blast
qed

section \<open>Properties of the exact step\<close>

lemma rows_set_column_series_map:
  "rows (set_column_series df c (map f (rows df))) = map (\<lambda>r. r(c := f r)) (rows df)"
  unfolding set_column_series_def
  by (simp, rule nth_equalityI) (auto simp: nth_enumerate_eq)

lemma add_clean_reference_Inr:
  assumes "add_clean_reference E rp master = Inr mw"
  shows "rp \<in> set (columns master)"
    and "''clean_reference'' \<in> set (columns mw)"
    and "set (columns master) \<subseteq> set (columns mw)"
    and "rows mw = map (\<lambda>r. r(''clean_reference'' := Str (clean_name E (r rp)))) (rows master)"
proof -
  from assms show rp: "rp \<in> set (columns master)"
    by (auto simp: add_clean_reference_def get_column_def split: if_splits)
  with assms have mw: "mw = set_column_series master ''clean_reference''
      (map (\<lambda>r. Str (clean_name E (r rp))) (rows master))"
    by (simp add: add_clean_reference_def get_column_def comp_def)
  show "''clean_reference'' \<in> set (columns mw)" "set (columns master) \<subseteq> set (columns mw)"
    by (auto simp: mw set_column_series_def)
  show "rows mw = map (\<lambda>r. r(''clean_reference'' := Str (clean_name E (r rp)))) (rows master)"
    unfolding mw by (rule rows_set_column_series_map)
qed

lemma filter_first:
  "i < length xs \<Longrightarrow> P (xs ! i) \<Longrightarrow> \<forall>j<i. \<not> P (xs ! j) \<Longrightarrow> \<exists>rest. filter P xs = xs ! i # rest"
proof (induction xs arbitrary: i)
  case Nil
  then show ?case by simp
next
  case (Cons x xs)
  show ?case
  proof (cases i)
    case 0
    with Cons.prems show ?thesis by simp
  next
    case (Suc n)
    with Cons.prems have "\<not> P x" by auto
    moreover from Suc Cons.prems have "\<exists>rest. filter P xs = xs ! n # rest"
      by (intro Cons.IH) auto
    ultimately show ?thesis using Suc by simp
  qed
qed

lemma exact_lookup_first:
  assumes mw: "add_clean_reference E rp master = Inr mw"
    and i: "i < length (rows master)" "clean_name E ((rows master ! i) rp) = k"
    and first: "\<forall>j<i. clean_name E ((rows master ! j) rp) \<noteq> k"
  shows "exact_lookup mw rp ds k =
     Inr (Some \<lparr>mtype = ''EXACT'', matched_name = (rows mw ! i) rp, confidence = 1,
                data_value = get_default (columns mw) (rows mw ! i) ds (Str '''')\<rparr>)"
proof -
  note f = add_clean_reference_Inr [OF mw]
  let ?P = "\<lambda>r::row. r ''clean_reference'' = Str k"
  have "i < length (rows mw)" using i(1) by (simp add: f(4))
  moreover have "?P (rows mw ! i)" using i by (simp add: f(4))
  moreover have "\<forall>j<i. \<not> ?P (rows mw ! j)" using first i(1) by (simp add: f(4))
  ultimately obtain rest where "filter ?P (rows mw) = rows mw ! i # rest"
    using filter_first [of i "rows mw" ?P] by blast
  moreover have "rp \<in> set (columns mw)" using f(1,3) by blast
  ultimately show ?thesis
    using f(2) by (simp add: exact_lookup_def select_rows_def getitem_def)
qed

text \<open>
  C4. \<open>mw\<close> is the working copy of the reference table, with the cleaned keys in
  \<open>clean_reference\<close>. When the cleaned target value is not empty and row \<open>i\<close> is the first
  row in table order whose key equals it, both copies of the exact step
  (\<open>find_match_for_value\<close> and the single value path of \<open>process_data\<close>) return row \<open>i\<close>:
  type \<open>EXACT\<close>, confidence 1, the name and the data value of that row. So of two rows
  with the same key the earlier one wins.
\<close>

theorem exact_match_first_in_table_order:
  assumes "add_clean_reference E rp master = Inr mw"
    and "clean_name E tv \<noteq> ''''"
    and "i < length (rows master)"
    and "clean_name E ((rows master ! i) rp) = clean_name E tv"
    and "\<forall>j<i. clean_name E ((rows master ! j) rp) \<noteq> clean_name E tv"
  shows "rows mw ! i = (rows master ! i)(''clean_reference'' := Str (clean_name E tv)) \<and>
    find_match_for_value E self tv mw rp ds exact_only False =
      Inr (Some \<lparr>mtype = ''EXACT'', matched_name = (rows mw ! i) rp, confidence = 1,
                 data_value = get_default (columns mw) (rows mw ! i) ds (Str '''')\<rparr>) \<and>
    single_value_match E self mw rp ds tc tv =
      Inr (Some \<lparr>mtype = ''EXACT'', matched_name = (rows mw ! i) rp, confidence = 1,
                 data_value = get_default (columns mw) (rows mw ! i) ds (Str ''''),
                 column = tc\<rparr>)"
proof -
  have "rows mw ! i = (rows master ! i)(''clean_reference'' := Str (clean_name E tv))"
    using assms(3,4) by (simp add: add_clean_reference_Inr(4) [OF assms(1)])
  moreover note e = exact_lookup_first [OF assms(1) assms(3) assms(4) assms(5), of ds]
  moreover have "find_match_for_value E self tv mw rp ds exact_only False =
      Inr (Some \<lparr>mtype = ''EXACT'', matched_name = (rows mw ! i) rp, confidence = 1,
                 data_value = get_default (columns mw) (rows mw ! i) ds (Str '''')\<rparr>)"
    using assms(2) by (simp add: find_match_for_value_def e)
  moreover have "single_value_match E self mw rp ds tc tv =
      Inr (Some \<lparr>mtype = ''EXACT'', matched_name = (rows mw ! i) rp, confidence = 1,
                 data_value = get_default (columns mw) (rows mw ! i) ds (Str ''''),
                 column = tc\<rparr>)"
    using assms(2) by (simp add: single_value_match_def e with_column_def)
  ultimately show ?thesis by blast
qed

theorem exact_match_first_in_table_order_witness:
  "add_clean_reference ex_runtime ''Name'' ex_duplicates = Inr ex_duplicates_work \<and>
   clean_name ex_runtime (Str ''JOHN SMITH'') \<noteq> '''' \<and>
   (1::nat) < length (rows ex_duplicates) \<and>
   clean_name ex_runtime ((rows ex_duplicates ! 1) ''Name'') = clean_name ex_runtime (Str ''JOHN SMITH'') \<and>
   clean_name ex_runtime ((rows ex_duplicates ! 2) ''Name'') = clean_name ex_runtime (Str ''JOHN SMITH'') \<and>
   clean_name ex_runtime ((rows ex_duplicates ! 0) ''Name'') \<noteq>
      clean_name ex_runtime (Str ''JOHN SMITH'') \<and>
   find_match_for_value ex_runtime (ex_app False ''JOHN SMITH'') (Str ''JOHN SMITH'')
       ex_duplicates_work ''Name'' ''ID'' False False =
     Inr (Some \<lparr>mtype = ''EXACT'', matched_name = Str ''John Smith'', confidence = 1,
                data_value = Str ''001''\<rparr>)"
proof -
  have k: "clean_name ex_runtime (Str ''JOHN SMITH'') = ''john smith''"
    "clean_name ex_runtime (Str ''Jane Doe'') = ''jane doe''"
    "clean_name ex_runtime (Str ''John Smith'') = ''john smith''"
    "clean_name ex_runtime (Str ''john  SMITH.'') = ''john smith''"
    by code_simp+
  have a: "add_clean_reference ex_runtime ''Name'' ex_duplicates = Inr ex_duplicates_work"
    by (simp add: add_clean_reference_def get_column_def ex_duplicates_work_def ex_duplicates_def)
  have b: "clean_name ex_runtime (Str ''JOHN SMITH'') \<noteq> ''''"
    by (simp add: k)
  have c: "(1::nat) < length (rows ex_duplicates)"
    by (simp add: ex_duplicates_def)
  have d: "clean_name ex_runtime ((rows ex_duplicates ! 1) ''Name'') =
      clean_name ex_runtime (Str ''JOHN SMITH'')"
    by (simp add: ex_duplicates_def k)
  have d2: "clean_name ex_runtime ((rows ex_duplicates ! 2) ''Name'') =
      clean_name ex_runtime (Str ''JOHN SMITH'')"
    by (simp add: ex_duplicates_def k)
  have e: "\<forall>j<1. clean_name ex_runtime ((rows ex_duplicates ! j) ''Name'') \<noteq>
      clean_name ex_runtime (Str ''JOHN SMITH'')"
    by (simp add: ex_duplicates_def k)
  note t = exact_match_first_in_table_order
    [OF a b c d e, of "ex_app False ''JOHN SMITH''" "''ID''" False "''FullName''"]
  have cols: "columns ex_duplicates_work = [''Name'', ''ID'', ''clean_reference'']"
    by (simp add: ex_duplicates_work_def ex_duplicates_def set_column_series_def)
  have "find_match_for_value ex_runtime (ex_app False ''JOHN SMITH'') (Str ''JOHN SMITH'')
       ex_duplicates_work ''Name'' ''ID'' False False =
     Inr (Some \<lparr>mtype = ''EXACT'', matched_name = Str ''John Smith'', confidence = 1,
                data_value = Str ''001''\<rparr>)"
    using t by (simp add: cols get_default_def ex_duplicates_def)
  moreover have "clean_name ex_runtime ((rows ex_duplicates ! 0) ''Name'') \<noteq>
      clean_name ex_runtime (Str ''JOHN SMITH'')"
    using e by simp
  ultimately show ?thesis
    using a b c d d2 by (intro conjI)
qed

section \<open>Properties of the delimiter detection\<close>

lemma clean_name_blank:
  "isna v \<or> strip (py_str E v) = '''' \<Longrightarrow> clean_name E v = ''''"
  by (auto simp: clean_name_def sub_special_def lower_def)

lemma single_value_match_blank:
  "isna v \<or> strip (py_str E v) = '''' \<Longrightarrow>
     single_value_match E self mw rp ds tc v = Inr None"
  by (simp add: single_value_match_def clean_name_blank)

lemma multi_value_match_single:
  assumes "detect_delimiter (py_str E v) = None \<or>
           (\<exists>d. detect_delimiter (py_str E v) = Some d \<and> length (split_values d (py_str E v)) < 2)"
  shows "multi_value_match E self mw rp ds tc v = Inr None"
  using assms by (auto simp: multi_value_match_def Let_def)

text \<open>
  C6, as the specification states it: the candidates are comma, semicolon, pipe and
  space. In \<open>John Smith\<close> the space occurs and no candidate before it, so the space would be
  picked; \<open>process_data\<close> looks for comma, semicolon and pipe only and finds no delimiter.
\<close>

theorem detect_delimiter_space_counterexample:
  "spec_detect_delimiter ''John Smith'' = Some (CHR '' '') \<and>
   detect_delimiter ''John Smith'' = None"
  by (simp add: spec_detect_delimiter_def spec_delimiter_candidates_def detect_delimiter_def
      delimiters_to_check_def)

text \<open>
  C6, amended. The candidates are comma, semicolon and pipe, in this order, and the first
  of them that occurs anywhere in the raw value is picked; the space and the delimiter of
  the options are no candidates. When none occurs, or when splitting at the delimiter,
  trimming the parts and dropping the empty ones leaves fewer than two parts, the value is
  matched as a single value.
\<close>

theorem detect_delimiter_priority:
  "detect_delimiter s =
     (if CHR '','' \<in> set s then Some (CHR '','')
      else if CHR '';'' \<in> set s then Some (CHR '';'')
      else if CHR ''|'' \<in> set s then Some (CHR ''|'') else None)
   \<and> (getitem cols row tc = Inr v \<and>
        (detect_delimiter (py_str E v) = None \<or>
         (\<exists>d. detect_delimiter (py_str E v) = Some d \<and>
              length (split_values d (py_str E v)) < 2))
      \<longrightarrow> match_column E self mw rp ds cols row tc = single_value_match E self mw rp ds tc v)"
proof (intro conjI impI)
  show "detect_delimiter s =
     (if CHR '','' \<in> set s then Some (CHR '','')
      else if CHR '';'' \<in> set s then Some (CHR '';'')
      else if CHR ''|'' \<in> set s then Some (CHR ''|'') else None)"
    by (simp add: detect_delimiter_def delimiters_to_check_def)
next
  assume a: "getitem cols row tc = Inr v \<and>
        (detect_delimiter (py_str E v) = None \<or>
         (\<exists>d. detect_delimiter (py_str E v) = Some d \<and>
              length (split_values d (py_str E v)) < 2))"
  then have m: "multi_value_match E self mw rp ds tc v = Inr None"
    by (intro multi_value_match_single) simp
  show "match_column E self mw rp ds cols row tc = single_value_match E self mw rp ds tc v"
  proof (cases "isna v \<or> strip (py_str E v) = ''''")
    case True
    then show ?thesis
      using a by (simp add: match_column_def single_value_match_blank)
  next
    case False
    then show ?thesis
      using a m by (simp add: match_column_def)
  qed
qed

theorem detect_delimiter_priority_witness:
  "getitem [''FullName'', ''EmployeeID''] ((\<lambda>c. NaN)(''FullName'' := Str ''John Smith,''))
       ''FullName'' = Inr (Str ''John Smith,'') \<and>
   detect_delimiter (py_str ex_runtime (Str ''John Smith,'')) = Some (CHR '','') \<and>
   length (split_values (CHR '','') (py_str ex_runtime (Str ''John Smith,''))) < 2 \<and>
   match_column ex_runtime (ex_app True ''John Smith,'') ex_master_work ''Name'' ''ID''
       [''FullName'', ''EmployeeID''] ((\<lambda>c. NaN)(''FullName'' := Str ''John Smith,'')) ''FullName''
     = single_value_match ex_runtime (ex_app True ''John Smith,'') ex_master_work ''Name'' ''ID''
         ''FullName'' (Str ''John Smith,'')"
proof -
  have g: "getitem [''FullName'', ''EmployeeID''] ((\<lambda>c. NaN)(''FullName'' := Str ''John Smith,''))
       ''FullName'' = Inr (Str ''John Smith,'')"
    by (simp add: getitem_def)
  have d: "detect_delimiter (py_str ex_runtime (Str ''John Smith,'')) = Some (CHR '','')"
    by (simp add: detect_delimiter_def delimiters_to_check_def)
  have l: "length (split_values (CHR '','') (py_str ex_runtime (Str ''John Smith,''))) < 2"
    by (simp add: split_values_def strip_def isspace_def)
  from d l have "detect_delimiter (py_str ex_runtime (Str ''John Smith,'')) = None \<or>
         (\<exists>d. detect_delimiter (py_str ex_runtime (Str ''John Smith,'')) = Some d \<and>
              length (split_values d (py_str ex_runtime (Str ''John Smith,''))) < 2)"
    by blast
  with g detect_delimiter_priority
    [of "''''" "[''FullName'', ''EmployeeID'']" "(\<lambda>c. NaN)(''FullName'' := Str ''John Smith,'')"
      "''FullName''" "Str ''John Smith,''" ex_runtime "ex_app True ''John Smith,''"
      ex_master_work "''Name''" "''ID''"]
  have "match_column ex_runtime (ex_app True ''John Smith,'') ex_master_work ''Name'' ''ID''
       [''FullName'', ''EmployeeID''] ((\<lambda>c. NaN)(''FullName'' := Str ''John Smith,'')) ''FullName''
     = single_value_match ex_runtime (ex_app True ''John Smith,'') ex_master_work ''Name'' ''ID''
         ''FullName'' (Str ''John Smith,'')"
    by blast
  with g d l show ?thesis by blast
qed

section \<open>Properties of the row reconciliation\<close>


lemma max_confidence_first:
  "\<exists>pre post. b # ms = pre @ max_confidence b ms # post \<and>
     (\<forall>m\<in>set pre. confidence m < confidence (max_confidence b ms)) \<and>
     (\<forall>m\<in>set post. confidence m \<le> confidence (max_confidence b ms))"
proof (induction ms arbitrary: b)
  case Nil
  have "[b] = [] @ b # [] \<and> (\<forall>m\<in>set []. confidence m < confidence b) \<and>
      (\<forall>m\<in>set []. confidence m \<le> confidence b)"
    by simp
  then show ?case unfolding max_confidence.simps by blast
next
  case (Cons m ms)
  let ?b = "if confidence b < confidence m then m else b"
  let ?r = "max_confidence ?b ms"
  from Cons.IH [of ?b] obtain pre post where p: "?b # ms = pre @ ?r # post"
    "\<forall>x\<in>set pre. confidence x < confidence ?r" "\<forall>x\<in>set post. confidence x \<le> confidence ?r"
    by blast
  have r: "max_confidence b (m # ms) = ?r" by simp
  show ?case
  proof (cases pre)
    case Nil
    with p have e: "?r = ?b" "post = ms" by auto
    show ?thesis
    proof (cases "confidence b < confidence m")
      case True
      with e p(3) have "b # m # ms = [b] @ ?r # ms \<and> (\<forall>x\<in>set [b]. confidence x < confidence ?r)
          \<and> (\<forall>x\<in>set ms. confidence x \<le> confidence ?r)"
        by simp
      then show ?thesis unfolding r by blast
    next
      case False
      with e p(3) have "b # m # ms = [] @ ?r # (m # ms) \<and>
          (\<forall>x\<in>set []. confidence x < confidence ?r)
          \<and> (\<forall>x\<in>set (m # ms). confidence x \<le> confidence ?r)"
        by auto
      then show ?thesis unfolding r by blast
    qed
  next
    case (Cons x pre')
    with p have e: "x = ?b" "ms = pre' @ ?r # post" by auto
    from p(2) Cons e have lt: "confidence ?b < confidence ?r" by simp
    have "confidence b \<le> confidence ?b" "confidence m \<le> confidence ?b" by auto
    with lt have "confidence b < confidence ?r" "confidence m < confidence ?r" by linarith+
    moreover have "\<forall>x\<in>set pre'. confidence x < confidence ?r"
      using p(2) Cons by simp
    moreover have "b # m # ms = (b # m # pre') @ ?r # post"
      using e(2) by simp
    ultimately have "b # m # ms = (b # m # pre') @ ?r # post \<and>
        (\<forall>x\<in>set (b # m # pre'). confidence x < confidence ?r) \<and>
        (\<forall>x\<in>set post. confidence x \<le> confidence ?r)"
      using p(3) by simp
    then show ?thesis unfolding r by blast
  qed
qed

lemma multi_value_match_column:
  "multi_value_match E self mw rp ds tc v = Inr (Some m) \<Longrightarrow> column m = tc"
  by (auto simp: multi_value_match_def Let_def split: option.splits sum.splits if_splits)

lemma single_value_match_column:
  "single_value_match E self mw rp ds tc v = Inr (Some m) \<Longrightarrow> column m = tc"
  by (auto simp: single_value_match_def Let_def with_column_def
      split: option.splits sum.splits if_splits)

lemma match_column_column:
  "match_column E self mw rp ds cols row tc = Inr (Some m) \<Longrightarrow> column m = tc"
  by (auto simp: match_column_def split: option.splits sum.splits if_splits
      dest: multi_value_match_column single_value_match_column)

lemma collect_matches_indices:
  "collect_matches E self mw rp ds cols row i tcs = Inr ms \<Longrightarrow>
     sorted_wrt (<) (map fst ms) \<and>
     (\<forall>(j, m)\<in>set ms. i \<le> j \<and> j < i + length tcs \<and> column m = tcs ! (j - i))"
proof (induction tcs arbitrary: i ms)
  case Nil
  then show ?case by simp
next
  case (Cons tc tcs)
  from Cons.prems obtain found rest where
    f: "match_column E self mw rp ds cols row tc = Inr found"
    and r: "collect_matches E self mw rp ds cols row (Suc i) tcs = Inr rest"
    and ms: "ms = (case found of None \<Rightarrow> rest | Some m \<Rightarrow> (i, m) # rest)"
    by (auto split: sum.splits)
  note ih = Cons.IH [OF r]
  have rest: "\<forall>(j, m)\<in>set rest. i \<le> j \<and> j < i + length (tc # tcs) \<and> column m = (tc # tcs) ! (j - i)"
  proof (clarify)
    fix j m assume "(j, m) \<in> set rest"
    with ih have "Suc i \<le> j" "j < Suc i + length tcs" "column m = tcs ! (j - Suc i)"
      by auto
    then show "i \<le> j \<and> j < i + length (tc # tcs) \<and> column m = (tc # tcs) ! (j - i)"
      by (auto simp: Suc_diff_le)
  qed
  show ?case
  proof (cases found)
    case None
    with ms ih rest show ?thesis by simp
  next
    case (Some m)
    with f have "column m = tc" by (auto dest: match_column_column)
    moreover have "\<forall>j\<in>set (map fst rest). i < j"
      using ih by auto
    ultimately show ?thesis
      using ms Some ih rest by auto
  qed
qed

lemma round_half_even_near:
  "\<bar>of_int (round_half_even x) - x\<bar> \<le> 1 / 2"
proof -
  have "of_int \<lfloor>x\<rfloor> \<le> x" "x < of_int \<lfloor>x\<rfloor> + 1"
    by linarith+
  then show ?thesis
    by (auto simp: round_half_even_def Let_def)
qed

lemma py_round3_near:
  "(\<exists>n::int. py_round3 x = of_int n / 1000) \<and> \<bar>py_round3 x - x\<bar> \<le> 1 / 2000"
proof
  show "\<exists>n::int. py_round3 x = of_int n / 1000"
    unfolding py_round3_def by blast
  have "\<bar>of_int (round_half_even (x * 1000)) - x * 1000\<bar> \<le> 1 / 2"
    by (rule round_half_even_near)
  then show "\<bar>py_round3 x - x\<bar> \<le> 1 / 2000"
    unfolding py_round3_def by (simp add: field_simps abs_le_iff)
qed

lemma rows_add_tracking_columns:
  "rows (add_tracking_columns w) =
     map (\<lambda>r. r(''Match_Type'' := Str '''', ''Matched_Reference_Name'' := Str '''',
               ''Confidence'' := Str '''', ''Matched_Column'' := Str '''')) (rows w)"
  by (simp add: add_tracking_columns_def set_column_value_def comp_def)

lemma tracking_blank:
  assumes "row \<in> set (rows (add_tracking_columns w))"
  shows "row ''Match_Type'' = Str ''''" "row ''Matched_Reference_Name'' = Str ''''"
    "row ''Confidence'' = Str ''''" "row ''Matched_Column'' = Str ''''"
  using assms by (auto simp: rows_add_tracking_columns)

lemma best_of_matches:
  fixes item :: "nat \<times> match_info"
  assumes s: "sorted_wrt (<) (map fst (item # items))"
  shows "\<exists>i. (i, max_confidence (snd item) (map snd items)) \<in> set (item # items) \<and>
     (\<forall>(j, m)\<in>set (item # items).
         confidence m \<le> confidence (max_confidence (snd item) (map snd items)) \<and>
         (confidence m = confidence (max_confidence (snd item) (map snd items)) \<longrightarrow> i \<le> j))"
proof -
  define b where "b = max_confidence (snd item) (map snd items)"
  have "\<exists>pre post. snd item # map snd items = pre @ b # post \<and>
     (\<forall>m\<in>set pre. confidence m < confidence b) \<and>
     (\<forall>m\<in>set post. confidence m \<le> confidence b)"
    unfolding b_def by (rule max_confidence_first)
  then obtain pre post where p: "snd item # map snd items = pre @ b # post"
    "\<forall>m\<in>set pre. confidence m < confidence b" "\<forall>m\<in>set post. confidence m \<le> confidence b"
    by blast
  from p(1) have "map snd (item # items) = pre @ b # post" by simp
  then have "\<exists>us vs. item # items = us @ vs \<and> pre = map snd us \<and> b # post = map snd vs"
    by (simp only: map_eq_append_conv)
  then obtain ms1 ms2 where m12: "item # items = ms1 @ ms2" "pre = map snd ms1"
    "b # post = map snd ms2"
    by (elim exE conjE) (rule that)
  from m12(3) have "\<exists>z zs. ms2 = z # zs \<and> b = snd z \<and> post = map snd zs"
    by (simp only: Cons_eq_map_conv)
  then obtain x ms3 where m3: "ms2 = x # ms3" "b = snd x" "post = map snd ms3"
    by (elim exE conjE) (rule that)
  have ms: "item # items = ms1 @ x # ms3"
    using m12(1) m3(1) by simp
  have before: "confidence (snd y) < confidence b" if "y \<in> set ms1" for y
    using that p(2) m12(2) by simp
  have after_c: "confidence (snd y) \<le> confidence b" if "y \<in> set ms3" for y
    using that p(3) m3(3) by simp
  from s have "sorted_wrt (\<lambda>u v. fst u < fst v) (ms1 @ x # ms3)"
    unfolding ms sorted_wrt_map .
  then have "sorted_wrt (\<lambda>u v. fst u < fst v) (x # ms3)"
    unfolding sorted_wrt_append by blast
  then have after_i: "fst x < fst y" if "y \<in> set ms3" for y
    using that by simp
  have "(fst x, b) \<in> set (item # items)"
    unfolding ms using m3(2) by (cases x) simp
  moreover have "\<forall>(j, m)\<in>set (item # items).
      confidence m \<le> confidence b \<and> (confidence m = confidence b \<longrightarrow> fst x \<le> j)"
  proof (clarify)
    fix j m assume "(j, m) \<in> set (item # items)"
    then consider "(j, m) \<in> set ms1" | "(j, m) = x" | "(j, m) \<in> set ms3"
      unfolding ms by auto
    then show "confidence m \<le> confidence b \<and> (confidence m = confidence b \<longrightarrow> fst x \<le> j)"
    proof cases
      case 1
      from before [OF 1] show ?thesis by simp
    next
      case 2
      with m3(2) show ?thesis by auto
    next
      case 3
      from after_c [OF 3] after_i [OF 3] show ?thesis by simp
    qed
  qed
  ultimately show ?thesis unfolding b_def by blast
qed

text \<open>
  C3. \<open>ms\<close> are the matches of the target columns of one row of the working table, by
  position. When there is one, the row gets its tracking fields from a match \<open>b\<close> at a
  position \<open>i\<close> whose confidence no other match exceeds, and every match of the same
  confidence is at position \<open>i\<close> or later: the earliest configured column wins a tie.
  \<open>Match_Type\<close>, \<open>Matched_Reference_Name\<close> and \<open>Matched_Column\<close> are those of \<open>b\<close>, and
  \<open>Confidence\<close> is its confidence rounded to a multiple of 1/1000 at most 1/2000 away.
  When there is no match, \<open>Match_Type\<close> is \<open>REVIEW\<close> and the other three stay blank.
\<close>

theorem tracking_fields_from_best_match:
  assumes c: "collect_matches E self mw rp ds cols row 0 (selected_target_columns self) = Inr ms"
    and r: "row \<in> set (rows (add_tracking_columns work))"
  shows "\<exists>row' st'. process_row E self mw rp ds cols row st = Inr (row', st') \<and>
     (ms \<noteq> [] \<longrightarrow>
        (\<exists>i b. (i, b) \<in> set ms \<and> i < length (selected_target_columns self) \<and>
           column b = selected_target_columns self ! i \<and>
           (\<forall>(j, m)\<in>set ms. confidence m \<le> confidence b \<and>
                (confidence m = confidence b \<longrightarrow> i \<le> j)) \<and>
           row' ''Match_Type'' = Str (mtype b) \<and>
           row' ''Matched_Reference_Name'' = matched_name b \<and>
           row' ''Confidence'' = Num (py_round3 (confidence b)) \<and>
           (\<exists>n::int. py_round3 (confidence b) = of_int n / 1000) \<and>
           \<bar>py_round3 (confidence b) - confidence b\<bar> \<le> 1 / 2000 \<and>
           row' ''Matched_Column'' = Str (column b))) \<and>
     (ms = [] \<longrightarrow>
        row' ''Match_Type'' = Str ''REVIEW'' \<and> row' ''Matched_Reference_Name'' = Str '''' \<and>
        row' ''Confidence'' = Str '''' \<and> row' ''Matched_Column'' = Str '''')"
proof (cases ms)
  case Nil
  then show ?thesis
    using c tracking_blank [OF r] by (simp add: process_row_def)
next
  case (Cons item items)
  define b where "b = max_confidence (snd item) (map snd items)"
  note ix = collect_matches_indices [OF c]
  from ix Cons have sorted: "sorted_wrt (<) (map fst (item # items))" by simp
  have "\<exists>i. (i, b) \<in> set ms \<and>
      (\<forall>(j, m)\<in>set ms. confidence m \<le> confidence b \<and>
          (confidence m = confidence b \<longrightarrow> i \<le> j))"
    unfolding Cons b_def by (rule best_of_matches [OF sorted])
  then obtain i where i: "(i, b) \<in> set ms"
    "\<forall>(j, m)\<in>set ms. confidence m \<le> confidence b \<and> (confidence m = confidence b \<longrightarrow> i \<le> j)"
    by (elim exE conjE) (rule that)
  from ix i(1) have col: "i < length (selected_target_columns self)"
    "column b = selected_target_columns self ! i"
    by auto
  define row' where "row' = (write_replace_columns cols (selected_replace_columns self) ms row)
      (''Match_Type'' := Str (mtype b), ''Matched_Reference_Name'' := matched_name b,
       ''Confidence'' := Num (py_round3 (confidence b)), ''Matched_Column'' := Str (column b))"
  define st' where "st' = (if mtype b = ''EXACT''
       then st\<lparr>exact_matches := exact_matches st + 1\<rparr>
       else st\<lparr>fuzzy_matches := fuzzy_matches st + 1\<rparr>)"
  have p: "process_row E self mw rp ds cols row st = Inr (row', st')"
    using c Cons by (simp add: process_row_def Let_def row'_def st'_def b_def)
  have f: "row' ''Match_Type'' = Str (mtype b)" "row' ''Matched_Reference_Name'' = matched_name b"
      "row' ''Confidence'' = Num (py_round3 (confidence b))"
      "row' ''Matched_Column'' = Str (column b)"
    by (simp_all add: row'_def)
  note n = py_round3_near [of "confidence b"]
  have "(i, b) \<in> set ms \<and> i < length (selected_target_columns self) \<and>
           column b = selected_target_columns self ! i \<and>
           (\<forall>(j, m)\<in>set ms. confidence m \<le> confidence b \<and>
                (confidence m = confidence b \<longrightarrow> i \<le> j)) \<and>
           row' ''Match_Type'' = Str (mtype b) \<and>
           row' ''Matched_Reference_Name'' = matched_name b \<and>
           row' ''Confidence'' = Num (py_round3 (confidence b)) \<and>
           (\<exists>n::int. py_round3 (confidence b) = of_int n / 1000) \<and>
           \<bar>py_round3 (confidence b) - confidence b\<bar> \<le> 1 / 2000 \<and>
           row' ''Matched_Column'' = Str (column b)"
    using i col f n by (intro conjI) (simp_all only:)
  then have "\<exists>i b. (i, b) \<in> set ms \<and> i < length (selected_target_columns self) \<and>
           column b = selected_target_columns self ! i \<and>
           (\<forall>(j, m)\<in>set ms. confidence m \<le> confidence b \<and>
                (confidence m = confidence b \<longrightarrow> i \<le> j)) \<and>
           row' ''Match_Type'' = Str (mtype b) \<and>
           row' ''Matched_Reference_Name'' = matched_name b \<and>
           row' ''Confidence'' = Num (py_round3 (confidence b)) \<and>
           (\<exists>n::int. py_round3 (confidence b) = of_int n / 1000) \<and>
           \<bar>py_round3 (confidence b) - confidence b\<bar> \<le> 1 / 2000 \<and>
           row' ''Matched_Column'' = Str (column b)"
    by (intro exI)
  moreover have "ms \<noteq> []" using Cons by simp
  ultimately show ?thesis
    using p by (intro exI [of _ row'] exI [of _ st']) simp
qed

theorem tracking_fields_from_best_match_witness:
  "collect_matches ex_runtime ex_app2 ex_master_work ''Name'' ''ID''
       (columns (add_tracking_columns ex_target2)) (hd (rows (add_tracking_columns ex_target2))) 0
       (selected_target_columns ex_app2) = Inr ex_matches2 \<and>
   hd (rows (add_tracking_columns ex_target2)) \<in> set (rows (add_tracking_columns ex_target2)) \<and>
   (\<exists>row' st'. process_row ex_runtime ex_app2 ex_master_work ''Name'' ''ID''
        (columns (add_tracking_columns ex_target2)) (hd (rows (add_tracking_columns ex_target2)))
        \<lparr>exact_matches = 0, fuzzy_matches = 0, no_matches = 0\<rparr> = Inr (row', st') \<and>
      row' ''Match_Type'' = Str ''EXACT'' \<and> row' ''Matched_Reference_Name'' = Str ''Jane Doe'' \<and>
      row' ''Confidence'' = Num 1 \<and> row' ''Matched_Column'' = Str ''FullName'')"
proof -
  let ?cols = "columns (add_tracking_columns ex_target2)"
  let ?row = "hd (rows (add_tracking_columns ex_target2))"
  let ?st = "\<lparr>exact_matches = 0, fuzzy_matches = 0, no_matches = 0\<rparr>"
  have h1: "collect_matches ex_runtime ex_app2 ex_master_work ''Name'' ''ID'' ?cols ?row 0
       (selected_target_columns ex_app2) = Inr ex_matches2"
    by code_simp
  have h2: "?row \<in> set (rows (add_tracking_columns ex_target2))"
    by (simp add: add_tracking_columns_def set_column_value_def ex_target2_def)
  have ne: "ex_matches2 \<noteq> []"
    by (simp add: ex_matches2_def)
  from tracking_fields_from_best_match [OF h1 h2, of ?st]
  obtain row' st' where p: "process_row ex_runtime ex_app2 ex_master_work ''Name'' ''ID''
        ?cols ?row ?st = Inr (row', st')"
    and pos: "ex_matches2 \<noteq> [] \<longrightarrow>
        (\<exists>i b. (i, b) \<in> set ex_matches2 \<and> i < length (selected_target_columns ex_app2) \<and>
           column b = selected_target_columns ex_app2 ! i \<and>
           (\<forall>(j, m)\<in>set ex_matches2. confidence m \<le> confidence b \<and>
                (confidence m = confidence b \<longrightarrow> i \<le> j)) \<and>
           row' ''Match_Type'' = Str (mtype b) \<and>
           row' ''Matched_Reference_Name'' = matched_name b \<and>
           row' ''Confidence'' = Num (py_round3 (confidence b)) \<and>
           (\<exists>n::int. py_round3 (confidence b) = of_int n / 1000) \<and>
           \<bar>py_round3 (confidence b) - confidence b\<bar> \<le> 1 / 2000 \<and>
           row' ''Matched_Column'' = Str (column b))"
    by (elim exE conjE) (rule that, assumption, assumption)
  from pos ne obtain i b where ib: "(i, b) \<in> set ex_matches2"
    and first: "\<forall>(j, m)\<in>set ex_matches2. confidence m \<le> confidence b \<and>
                (confidence m = confidence b \<longrightarrow> i \<le> j)"
    and f: "row' ''Match_Type'' = Str (mtype b)" "row' ''Matched_Reference_Name'' = matched_name b"
      "row' ''Confidence'' = Num (py_round3 (confidence b))"
      "row' ''Matched_Column'' = Str (column b)"
    by (elim impE exE conjE) (assumption, rule that, assumption+)
  have set2: "set ex_matches2 = {ex_matches2 ! 0, ex_matches2 ! 1}"
    by (simp add: ex_matches2_def)
  have c0: "confidence (snd (ex_matches2 ! 0)) = 1" "fst (ex_matches2 ! 0) = 0"
    "confidence (snd (ex_matches2 ! 1)) = 1" "fst (ex_matches2 ! 1) = 1"
    by (simp_all add: ex_matches2_def)
  from ib set2 have "(i, b) = ex_matches2 ! 0 \<or> (i, b) = ex_matches2 ! 1"
    by simp
  then have c1: "confidence b = 1"
    using c0 by (metis snd_conv)
  have "ex_matches2 ! 0 \<in> set ex_matches2"
    using set2 by simp
  with first have "confidence (snd (ex_matches2 ! 0)) = confidence b \<longrightarrow> i \<le> fst (ex_matches2 ! 0)"
    by (metis (mono_tags, lifting) case_prodD prod.collapse)
  with c0 c1 have i0: "i = 0"
    by simp
  with \<open>(i, b) = ex_matches2 ! 0 \<or> (i, b) = ex_matches2 ! 1\<close> c0
  have "(i, b) = ex_matches2 ! 0"
    by (metis fst_conv zero_neq_one)
  then have b: "b = snd (ex_matches2 ! 0)"
    by (metis snd_conv)
  have bf: "mtype b = ''EXACT''" "matched_name b = Str ''Jane Doe''" "confidence b = 1"
    "column b = ''FullName''"
    unfolding b by (simp_all add: ex_matches2_def)
  have r1: "py_round3 1 = 1"
    by (simp add: py_round3_def round_half_even_def)
  have g: "row' ''Match_Type'' = Str ''EXACT''" "row' ''Matched_Reference_Name'' = Str ''Jane Doe''"
      "row' ''Confidence'' = Num 1" "row' ''Matched_Column'' = Str ''FullName''"
    using f by (simp_all add: bf r1)
  have "\<exists>row' st'. process_row ex_runtime ex_app2 ex_master_work ''Name'' ''ID''
        ?cols ?row ?st = Inr (row', st') \<and>
      row' ''Match_Type'' = Str ''EXACT'' \<and> row' ''Matched_Reference_Name'' = Str ''Jane Doe'' \<and>
      row' ''Confidence'' = Num 1 \<and> row' ''Matched_Column'' = Str ''FullName''"
    using p g by (intro exI [of _ row'] exI [of _ st'] conjI)
  with h1 h2 show ?thesis by (intro conjI)
qed

end
